theory Spec2Isabelle
  imports Main "HOL-Library.Sublist"
begin

section \<open>Errors\<close>

text \<open>
  Every \<open>throw\<close> of \<open>granola-api.ts\<close> and every exception of the runtime that the modelled
  code can meet is a value of \<open>error\<close>; a function that can throw returns \<open>error + 'a\<close>.
  \<^item> \<open>ConfigNotFound\<close>: \<open>Error("Granola config file not found at ...")\<close>;
  \<^item> \<open>NoWorkosTokens\<close>: \<open>Error("No workos_tokens found in Granola config")\<close>;
  \<^item> \<open>NoAccessToken\<close>: \<open>Error("No access_token found in workos_tokens")\<close>;
  \<^item> \<open>ApiError status text\<close>: \<open>Error(`API error ${status}: ${text}`)\<close>;
  \<^item> \<open>SyntaxError\<close>: thrown by \<open>JSON.parse\<close>; \<open>TypeError\<close>: a property read on \<open>null\<close>;
    \<open>RangeError\<close>: thrown by \<open>String.prototype.repeat\<close>;
  \<^item> \<open>FetchRejected\<close>: the promise of \<open>fetch\<close> rejects.
\<close>

datatype error =
    ConfigNotFound
  | NoWorkosTokens
  | NoAccessToken
  | ApiError int string
  | SyntaxError
  | TypeError
  | RangeError
  | FetchRejected

text \<open>The taxonomy of the specification, read on the errors of the code.\<close>

definition isConfigError :: "error \<Rightarrow> bool" where
  "isConfigError e = (e = ConfigNotFound)"

definition isAuthError :: "error \<Rightarrow> bool" where
  "isAuthError e = (e = NoWorkosTokens \<or> e = NoAccessToken)"

section \<open>Strings of the JavaScript runtime\<close>

text \<open>
  A JavaScript string is modelled as a \<^typ>\<open>string\<close>, one \<^typ>\<open>char\<close> per code unit, for
  texts in the ASCII range. \<open>String.prototype.toLowerCase\<close> maps the letters \<open>A\<close> to \<open>Z\<close>
  to \<open>a\<close> to \<open>z\<close> and leaves every other ASCII code unit as it is.
\<close>

definition toLowerChar :: "char \<Rightarrow> char" where
  "toLowerChar c =
     (case map_of (zip ''ABCDEFGHIJKLMNOPQRSTUVWXYZ'' ''abcdefghijklmnopqrstuvwxyz'') c of
        Some l \<Rightarrow> l
      | None \<Rightarrow> c)"

definition toLowerCase :: "string \<Rightarrow> string" where
  "toLowerCase s = map toLowerChar s"

text \<open>
  \<open>s.includes(pat)\<close>: some position of \<open>s\<close> starts an occurrence of \<open>pat\<close>. The empty
  pattern occurs in every string, the empty one included.
\<close>

fun includes_str :: "string \<Rightarrow> string \<Rightarrow> bool" where
  "includes_str [] pat = (pat = [])"
| "includes_str (c # cs) pat = (prefix pat (c # cs) \<or> includes_str cs pat)"

text \<open>
  \<open>s.trim()\<close> removes white space and line terminators at both ends; in the ASCII range
  these are TAB, LF, VT, FF, CR and the space.
\<close>

definition isWhiteSpace :: "char \<Rightarrow> bool" where
  "isWhiteSpace c = (c \<in> set [CHR 0x09, CHR 0x0A, CHR 0x0B, CHR 0x0C, CHR 0x0D, CHR 0x20])"

definition trim :: "string \<Rightarrow> string" where
  "trim s = rev (dropWhile isWhiteSpace (rev (dropWhile isWhiteSpace s)))"

text \<open>
  \<open>xs.join(sep)\<close> as \<open>Array.prototype.join\<close> runs: the result \<open>R\<close> starts empty, and every
  element is appended to it, after the separator when it is not the first element.
\<close>

fun join_loop :: "string \<Rightarrow> string \<Rightarrow> bool \<Rightarrow> string list \<Rightarrow> string" where
  "join_loop sep R first [] = R"
| "join_loop sep R first (x # xs) = join_loop sep ((if first then R else R @ sep) @ x) False xs"

definition join :: "string \<Rightarrow> string list \<Rightarrow> string" where
  "join sep xs = join_loop sep [] True xs"

text \<open>
  The count that \<open>String.prototype.repeat\<close> reads from its argument (\<open>ToIntegerOrInfinity\<close>):
  an integer, \<open>+\<infinity>\<close> or \<open>-\<infinity>\<close>.
\<close>

datatype integer_or_infinity = Finite int | PosInfinity | NegInfinity

text \<open>
  The runtime allows no string longer than a maximal length, which is a parameter
  \<open>maxLength\<close> of the renderer. An operation whose result would be longer throws
  \<open>RangeError\<close> (\<open>Invalid string length\<close>).
\<close>

definition checkLength :: "nat \<Rightarrow> string \<Rightarrow> error + string" where
  "checkLength maxLength s = (if length s > maxLength then Inl RangeError else Inr s)"

text \<open>
  \<open>s.repeat(count)\<close>: a negative count and the count \<open>+\<infinity>\<close> throw \<open>RangeError\<close>, and so
  does a count with which the result would be longer than the runtime allows.
\<close>

definition repeat_str :: "nat \<Rightarrow> string \<Rightarrow> integer_or_infinity \<Rightarrow> error + string" where
  "repeat_str maxLength s count =
     (case count of
        Finite n \<Rightarrow>
          if n < 0 then Inl RangeError
          else if length s * nat n > maxLength then Inl RangeError
          else Inr (concat (replicate (nat n) s))
      | PosInfinity \<Rightarrow> Inl RangeError
      | NegInfinity \<Rightarrow> Inl RangeError)"

text \<open>The decimal numeral of a natural number, as a template literal prints it.\<close>

function decimal :: "nat \<Rightarrow> string" where
  "decimal n =
     (if n < 10 then [''0123456789'' ! n]
      else decimal (n div 10) @ [''0123456789'' ! (n mod 10)])"
  by pat_completeness auto
termination
  by (relation "measure (\<lambda>n. n)") auto

declare decimal.simps [simp del]

section \<open>The content tree\<close>

text \<open>
  A value of type \<open>unknown\<close> in \<open>attrs\<close>. The renderer observes two things of the value of
  \<open>level\<close>: whether it is truthy (the operator \<open>||\<close>) and the count that
  \<open>String.prototype.repeat\<close> reads from it. \<open>JSNumber n\<close> is the integral number \<open>n\<close>,
  \<open>JSInfinity\<close> and \<open>JSNegativeInfinity\<close> are the two infinite numbers (\<open>JSON.parse\<close> reads
  \<open>1e999\<close> as \<open>Infinity\<close>). Any other value (a number that is not integral, a string, an
  array) is \<open>JSCoercible truthy count\<close>: the string \<open>"2"\<close> is \<open>JSCoercible True (Finite 2)\<close>,
  the string \<open>"abc"\<close>, whose numeric reading is \<open>NaN\<close>, is \<open>JSCoercible True (Finite 0)\<close>, the
  number \<open>2.5\<close> is \<open>JSCoercible True (Finite 2)\<close>.
\<close>

datatype js_value =
    JSUndefined
  | JSNull
  | JSBoolean bool
  | JSNumber int
  | JSInfinity
  | JSNegativeInfinity
  | JSCoercible bool integer_or_infinity

fun truthy :: "js_value \<Rightarrow> bool" where
  "truthy JSUndefined = False"
| "truthy JSNull = False"
| "truthy (JSBoolean b) = b"
| "truthy (JSNumber n) = (n \<noteq> 0)"
| "truthy JSInfinity = True"
| "truthy JSNegativeInfinity = True"
| "truthy (JSCoercible t n) = t"

fun toIntegerOrInfinity :: "js_value \<Rightarrow> integer_or_infinity" where
  "toIntegerOrInfinity JSUndefined = Finite 0"
| "toIntegerOrInfinity JSNull = Finite 0"
| "toIntegerOrInfinity (JSBoolean b) = Finite (if b then 1 else 0)"
| "toIntegerOrInfinity (JSNumber n) = Finite n"
| "toIntegerOrInfinity JSInfinity = PosInfinity"
| "toIntegerOrInfinity JSNegativeInfinity = NegInfinity"
| "toIntegerOrInfinity (JSCoercible t n) = n"

text \<open>
  The interface \<open>ProseMirrorNode\<close>. The fields \<open>type\<close> and \<open>text\<close> are named \<open>node_type\<close>
  and \<open>node_text\<close>; an optional field is an \<^typ>\<open>'a option\<close>; a mark is its \<open>type\<close>.
\<close>

datatype ProseMirrorNode =
  ProseMirrorNode
    (node_type: string)
    (content: "ProseMirrorNode list option")
    (node_text: "string option")
    (marks: "string list option")
    (attrs: "(string \<rightharpoonup> js_value) option")

text \<open>\<open>node.attrs?.level\<close>\<close>

definition attrs_level :: "(string \<rightharpoonup> js_value) option \<Rightarrow> js_value" where
  "attrs_level a =
     (case a of
        None \<Rightarrow> JSUndefined
      | Some m \<Rightarrow> (case m ''level'' of None \<Rightarrow> JSUndefined | Some v \<Rightarrow> v))"

text \<open>The loop over the marks of a text node.\<close>

fun applyMarks :: "string \<Rightarrow> string list \<Rightarrow> string" where
  "applyMarks result [] = result"
| "applyMarks result (mark # rest) =
     applyMarks
       (if mark = ''bold'' then ''**'' @ result @ ''**''
        else if mark = ''italic'' then ''*'' @ result @ ''*''
        else if mark = ''code'' then ''`'' @ result @ ''`''
        else result)
       rest"

text \<open>
  \<open>xs.map(f)\<close> where \<open>f\<close> can throw: the first exception leaves the map, otherwise the
  results are collected in order.
\<close>

fun collect :: "(error + 'a) list \<Rightarrow> error + 'a list" where
  "collect [] = Inr []"
| "collect (Inl e # rs) = Inl e"
| "collect (Inr v # rs) = (case collect rs of Inl e \<Rightarrow> Inl e | Inr vs \<Rightarrow> Inr (v # vs))"

text \<open>\<open>content.map(processNode).join("")\<close>, given the results of the calls.\<close>

definition joinChildren :: "(error + string) list \<Rightarrow> error + string" where
  "joinChildren rs = (case collect rs of Inl e \<Rightarrow> Inl e | Inr vs \<Rightarrow> Inr (join [] vs))"

text \<open>The callback of the \<open>orderedList\<close> branch, given the result of \<open>processNode(child)\<close>.\<close>

definition orderedItem :: "nat \<Rightarrow> error + string \<Rightarrow> error + string" where
  "orderedItem i r =
     (case r of
        Inl e \<Rightarrow> Inl e
      | Inr childText \<Rightarrow>
          Inr (if childText \<noteq> [] then decimal (i + 1) @ ''. '' @ childText else []))"

text \<open>
  \<open>processNode\<close>, with the maximal string length of the runtime as its first argument. The
  limit is checked in the heading branch, where a number of the tree fixes the length of a
  string: in \<open>repeat\<close> and in the template literal around it.
\<close>

function processNode :: "nat \<Rightarrow> ProseMirrorNode \<Rightarrow> error + string" where
  "processNode maxLength (ProseMirrorNode nodeType c t m a) =
     (let content = (case c of None \<Rightarrow> [] | Some cs \<Rightarrow> cs);
          text = (case t of None \<Rightarrow> [] | Some s \<Rightarrow> s)
      in
        if nodeType = ''text'' then
          Inr (applyMarks text (case m of None \<Rightarrow> [] | Some ms \<Rightarrow> ms))
        else if nodeType = ''paragraph'' then
          (case joinChildren (map (processNode maxLength) content) of
             Inl e \<Rightarrow> Inl e
           | Inr paraText \<Rightarrow>
               Inr (if trim paraText \<noteq> [] then paraText @ ''\<newline>\<newline>'' else []))
        else if nodeType = ''heading'' then
          (let level = (if truthy (attrs_level a) then attrs_level a else JSNumber 1)
           in case joinChildren (map (processNode maxLength) content) of
                Inl e \<Rightarrow> Inl e
              | Inr headingText \<Rightarrow>
                  (case repeat_str maxLength ''#'' (toIntegerOrInfinity level) of
                     Inl e \<Rightarrow> Inl e
                   | Inr hashes \<Rightarrow>
                       checkLength maxLength (hashes @ '' '' @ headingText @ ''\<newline>\<newline>'')))
        else if nodeType = ''bulletList'' then
          joinChildren (map (processNode maxLength) content)
        else if nodeType = ''listItem'' then
          (case joinChildren (map (processNode maxLength) content) of
             Inl e \<Rightarrow> Inl e
           | Inr itemText \<Rightarrow> Inr (''- '' @ itemText))
        else if nodeType = ''orderedList'' then
          joinChildren
            (map (\<lambda>(i, child). orderedItem i (processNode maxLength child))
               (zip [0..<length content] content))
        else if nodeType = ''codeBlock'' then
          (case joinChildren (map (processNode maxLength) content) of
             Inl e \<Rightarrow> Inl e
           | Inr codeText \<Rightarrow> Inr (''```\<newline>'' @ codeText @ ''\<newline>```\<newline>\<newline>''))
        else if nodeType = ''hardBreak'' then
          Inr ''\<newline>''
        else if length content > 0 then
          joinChildren (map (processNode maxLength) content)
        else
          Inr [])"
  by pat_completeness auto
termination
  apply (relation "measure (\<lambda>(maxLength, node). size node)")
  apply (auto split: option.splits dest!: set_zip_rightD simp: less_Suc_eq_le
      intro!: le_SucI size_list_estimation' [OF _ order_refl])
  done

declare processNode.simps [simp del]

text \<open>
  \<open>convertProseMirrorToMarkdown\<close>. The call stack of the runtime has room for a limited
  nesting of calls. Whether it holds the calls that the rendering of a tree nests is the
  parameter \<open>stackHolds\<close>; when it does not, some call of \<open>processNode\<close> throws
  \<open>RangeError\<close> (\<open>Maximum call stack size exceeded\<close>), which nothing in the renderer
  catches.
\<close>

definition convertProseMirrorToMarkdown ::
  "nat \<Rightarrow> (ProseMirrorNode \<Rightarrow> bool) \<Rightarrow> ProseMirrorNode option \<Rightarrow> error + string" where
  "convertProseMirrorToMarkdown maxLength stackHolds pmContent =
     (case pmContent of
        None \<Rightarrow> Inr []
      | Some node \<Rightarrow> if stackHolds node then processNode maxLength node else Inl RangeError)"

section \<open>Documents and transcripts\<close>

text \<open>
  The interfaces \<open>GranolaDocument\<close> and \<open>TranscriptSegment\<close>, with the fields the program
  reads. The field \<open>id\<close> is named \<open>doc_id\<close>, the field \<open>content\<close> of the panel
  \<open>panel_content\<close>, the field \<open>text\<close> of a segment \<open>segment_text\<close>.
\<close>

record LastViewedPanel =
  panel_content :: "ProseMirrorNode option"

record GranolaDocument =
  doc_id :: string
  title :: string
  created_at :: string
  last_viewed_panel :: "LastViewedPanel option"
  notes_markdown :: "string option"

record TranscriptSegment =
  source :: string
  segment_text :: string

section \<open>The world outside the program\<close>

text \<open>
  \<open>JSON.parse(text) as T\<close> yields \<open>null\<close>, on which a property read throws \<open>TypeError\<close>,
  or a value read through the interface \<open>T\<close>, where a field that the value does not have
  is \<open>None\<close>.
\<close>

datatype 'a parsed = JNull | JObject 'a

record GranolaConfig =
  workos_tokens :: "string option"

record WorkOSTokens =
  access_token :: "string option"

record GetDocumentsResponse =
  docs :: "GranolaDocument list option"

text \<open>
  What the transcript endpoint answers, as \<open>getDocumentTranscript\<close> tests it: a value
  that is no array (with its truthiness), or an array of segments.
\<close>

datatype TranscriptPayload = NonArray bool | SegmentArray "TranscriptSegment list"

text \<open>
  The request bodies: \<open>{ limit, offset, include_last_viewed_panel }\<close> and
  \<open>{ document_id }\<close>.
\<close>

datatype RequestBody =
    GetDocumentsBody int int bool
  | GetTranscriptBody string

record HttpResponse =
  ok :: bool
  status :: int
  response_text :: string

text \<open>
  The file system, the network and the library functions of the runtime are parameters of
  the program:
  \<^item> \<open>config_file\<close>: the text of \<open>supabase.json\<close>, \<open>None\<close> when \<open>fs.existsSync\<close> is false;
  \<^item> \<open>parse_config\<close>, \<open>parse_tokens\<close>, \<open>parse_documents\<close>, \<open>parse_transcript\<close>:
    \<open>JSON.parse\<close> at the type the program reads the result at, \<open>None\<close> when it throws
    \<open>SyntaxError\<close>;
  \<^item> \<open>fetch url token body\<close>: the answer of the service to the POST request with that
    bearer token and JSON body, with the text of its body, or the error that the promise
    of \<open>fetch\<close> or of \<open>response.text()\<close> rejects with;
  \<^item> \<open>date_getTime\<close>: \<open>new Date(text).getTime()\<close>, \<open>None\<close> for \<open>NaN\<close>;
  \<^item> \<open>max_string_length\<close>: the maximal length of a string in the runtime;
  \<^item> \<open>stack_holds\<close>: whether the call stack has room for the calls that the rendering
    of a tree nests.
\<close>

record world =
  config_file :: "string option"
  parse_config :: "string \<Rightarrow> GranolaConfig parsed option"
  parse_tokens :: "string \<Rightarrow> WorkOSTokens parsed option"
  fetch :: "string \<Rightarrow> string \<Rightarrow> RequestBody \<Rightarrow> error + HttpResponse"
  parse_documents :: "string \<Rightarrow> GetDocumentsResponse parsed option"
  parse_transcript :: "string \<Rightarrow> TranscriptPayload option"
  date_getTime :: "string \<Rightarrow> int option"
  max_string_length :: nat
  stack_holds :: "ProseMirrorNode \<Rightarrow> bool"

text \<open>The class \<open>GranolaAPI\<close>: its one field.\<close>

record GranolaAPI =
  accessToken :: "string option"

section \<open>Credentials\<close>

definition loadCredentials :: "world \<Rightarrow> error + string" where
  "loadCredentials w =
     (case config_file w of
        None \<Rightarrow> Inl ConfigNotFound
      | Some configData \<Rightarrow>
          (case parse_config w configData of
             None \<Rightarrow> Inl SyntaxError
           | Some JNull \<Rightarrow> Inl TypeError
           | Some (JObject config) \<Rightarrow>
               (case workos_tokens config of
                  None \<Rightarrow> Inl NoWorkosTokens
                | Some tokensText \<Rightarrow>
                    if tokensText = [] then Inl NoWorkosTokens
                    else
                      (case parse_tokens w tokensText of
                         None \<Rightarrow> Inl SyntaxError
                       | Some JNull \<Rightarrow> Inl TypeError
                       | Some (JObject workosTokens) \<Rightarrow>
                           (case access_token workosTokens of
                              None \<Rightarrow> Inl NoAccessToken
                            | Some token \<Rightarrow>
                                if token = [] then Inl NoAccessToken else Inr token)))))"

definition getAccessToken :: "world \<Rightarrow> GranolaAPI \<Rightarrow> (error + string) \<times> GranolaAPI" where
  "getAccessToken w this =
     (let load =
            (case loadCredentials w of
               Inl e \<Rightarrow> (Inl e, this)
             | Inr token \<Rightarrow> (Inr token, this\<lparr>accessToken := Some token\<rparr>))
      in case accessToken this of
           None \<Rightarrow> load
         | Some cached \<Rightarrow> if cached = [] then load else (Inr cached, this))"

section \<open>Requests\<close>

text \<open>
  \<open>makeRequest<T>\<close>; the parameter \<open>parse\<close> is \<open>JSON.parse\<close> at the type \<open>T\<close>.
\<close>

definition makeRequest ::
  "world \<Rightarrow> (string \<Rightarrow> 'a option) \<Rightarrow> GranolaAPI \<Rightarrow> string \<Rightarrow> RequestBody
     \<Rightarrow> (error + 'a) \<times> GranolaAPI" where
  "makeRequest w parse this url body =
     (case getAccessToken w this of
        (Inl e, this') \<Rightarrow> (Inl e, this')
      | (Inr token, this') \<Rightarrow>
          (case fetch w url token body of
             Inl e \<Rightarrow> (Inl e, this')
           | Inr response \<Rightarrow>
               if \<not> ok response then
                 (Inl (ApiError (status response) (response_text response)), this')
               else
                 (case parse (response_text response) of
                    None \<Rightarrow> (Inl SyntaxError, this')
                  | Some data \<Rightarrow> (Inr data, this'))))"

definition getRecentDocuments ::
  "world \<Rightarrow> GranolaAPI \<Rightarrow> int \<Rightarrow> int \<Rightarrow> (error + GranolaDocument list) \<times> GranolaAPI" where
  "getRecentDocuments w this limit offset =
     (case makeRequest w (parse_documents w) this ''https://api.granola.ai/v2/get-documents''
             (GetDocumentsBody limit offset True) of
        (Inl e, this') \<Rightarrow> (Inl e, this')
      | (Inr JNull, this') \<Rightarrow> (Inl TypeError, this')
      | (Inr (JObject response), this') \<Rightarrow>
          (Inr (case docs response of None \<Rightarrow> [] | Some ds \<Rightarrow> ds), this'))"

text \<open>\<open>try { body } catch { return fallback }\<close>\<close>

definition try_catch :: "(error + 'a) \<times> 's \<Rightarrow> 'a \<Rightarrow> (error + 'a) \<times> 's" where
  "try_catch body fallback =
     (case body of
        (Inl e, s) \<Rightarrow> (Inr fallback, s)
      | (Inr v, s) \<Rightarrow> (Inr v, s))"

section \<open>Transcripts\<close>

definition formatSegment :: "TranscriptSegment \<Rightarrow> string" where
  "formatSegment segment =
     (if source segment = ''microphone'' then ''**Me:** '' @ segment_text segment
      else if source segment = ''system'' then ''**System:** '' @ segment_text segment
      else segment_text segment)"

definition getDocumentTranscript ::
  "world \<Rightarrow> GranolaAPI \<Rightarrow> string \<Rightarrow> (error + string option) \<times> GranolaAPI" where
  "getDocumentTranscript w this documentId =
     try_catch
       (case makeRequest w (parse_transcript w) this
               ''https://api.granola.ai/v1/get-document-transcript''
               (GetTranscriptBody documentId) of
          (Inl e, this') \<Rightarrow> (Inl e, this')
        | (Inr (NonArray t), this') \<Rightarrow> (Inr None, this')
        | (Inr (SegmentArray segments), this') \<Rightarrow>
            if length segments = 0 then (Inr None, this')
            else
              (let formattedTranscript = map formatSegment segments
               in (Inr (Some (join ''\<newline>\<newline>'' formattedTranscript)), this')))
       None"

section \<open>Notes\<close>

definition getDocumentNotes ::
  "world \<Rightarrow> GranolaAPI \<Rightarrow> string \<Rightarrow> (error + string option) \<times> GranolaAPI" where
  "getDocumentNotes w this documentId =
     try_catch
       (case getRecentDocuments w this 100 0 of
          (Inl e, this') \<Rightarrow> (Inl e, this')
        | (Inr documents, this') \<Rightarrow>
            (case find (\<lambda>d. doc_id d = documentId) documents of
               None \<Rightarrow> (Inr None, this')
             | Some doc \<Rightarrow>
                 if notes_markdown doc \<noteq> None \<and> notes_markdown doc \<noteq> Some [] then
                   (Inr (notes_markdown doc), this')
                 else
                   (case last_viewed_panel doc of
                      None \<Rightarrow> (Inr None, this')
                    | Some panel \<Rightarrow>
                        (case panel_content panel of
                           None \<Rightarrow> (Inr None, this')
                         | Some tree \<Rightarrow>
                             (case convertProseMirrorToMarkdown (max_string_length w) (stack_holds w)
                                     (Some tree) of
                                Inl e \<Rightarrow> (Inl e, this')
                              | Inr markdown \<Rightarrow> (Inr (Some markdown), this'))))))
       None"

section \<open>Matching\<close>

definition searchDocuments ::
  "world \<Rightarrow> GranolaAPI \<Rightarrow> string \<Rightarrow> int \<Rightarrow> (error + GranolaDocument list) \<times> GranolaAPI" where
  "searchDocuments w this titlePattern limit =
     (case getRecentDocuments w this limit 0 of
        (Inl e, this') \<Rightarrow> (Inl e, this')
      | (Inr documents, this') \<Rightarrow>
          (let pattern = toLowerCase titlePattern
           in (Inr (filter (\<lambda>doc. includes_str (toLowerCase (title doc)) pattern) documents),
               this')))"





text \<open>The result object \<open>{ document: matching[0] }\<close>; \<open>None\<close> is \<open>undefined\<close>.\<close>

record Latest1on1 =
  document :: "GranolaDocument option"


section \<open>The words of the specification\<close>



text \<open>The content tree that a document carries, if any.\<close>

definition contentTree :: "GranolaDocument \<Rightarrow> ProseMirrorNode option" where
  "contentTree d = (case last_viewed_panel d of None \<Rightarrow> None | Some panel \<Rightarrow> panel_content panel)"

text \<open>What one mark makes of the text rendered so far.\<close>

definition wrapMark :: "string \<Rightarrow> string \<Rightarrow> string" where
  "wrapMark mark x =
     (if mark = ''bold'' then ''**'' @ x @ ''**''
      else if mark = ''italic'' then ''*'' @ x @ ''*''
      else if mark = ''code'' then ''`'' @ x @ ''`''
      else x)"

text \<open>Lines with a blank line between two neighbours.\<close>

fun blankLineSeparated :: "string list \<Rightarrow> string" where
  "blankLineSeparated [] = []"
| "blankLineSeparated [l] = l"
| "blankLineSeparated (l # l' # ls) = l @ ''\<newline>\<newline>'' @ blankLineSeparated (l' # ls)"

definition speakerPrefix :: "string \<Rightarrow> string" where
  "speakerPrefix src =
     (if src = ''microphone'' then ''**Me:** ''
      else if src = ''system'' then ''**System:** ''
      else [])"




text \<open>The number of nodes on the longest path from the root of a tree to a leaf.\<close>

fun nesting :: "ProseMirrorNode \<Rightarrow> nat" where
  "nesting (ProseMirrorNode nodeType c t m a) =
     Suc (foldr max (map nesting (case c of None \<Rightarrow> [] | Some cs \<Rightarrow> cs)) 0)"

text \<open>A call stack that holds the rendering of the trees nesting at most a thousand nodes.\<close>

definition shallowStack :: "ProseMirrorNode \<Rightarrow> bool" where
  "shallowStack node = (nesting node \<le> 1000)"

section \<open>An example world\<close>

text \<open>
  A service with three documents and one transcript, and a credential file with the token
  \<open>tok\<close>. The parse functions are \<open>JSON.parse\<close> on the texts of this world; dates are read
  as \<open>new Date(text).getTime()\<close> gives them, in milliseconds. The maximal string length
  is the one of V8 on 64-bit platforms, \<open>2^29 - 24\<close>, and the call stack holds the
  rendering of every tree that nests at most a thousand nodes.
\<close>

definition exampleTree :: ProseMirrorNode where
  "exampleTree =
     ProseMirrorNode ''doc''
       (Some
         [ProseMirrorNode ''heading''
            (Some [ProseMirrorNode ''text'' None (Some ''Plan'') None None])
            None None (Some [''level'' \<mapsto> JSNumber 2]),
          ProseMirrorNode ''orderedList''
            (Some
              [ProseMirrorNode ''paragraph''
                 (Some [ProseMirrorNode ''text'' None (Some ''x'') (Some [''bold'', ''italic'']) None])
                 None None None,
               ProseMirrorNode ''paragraph'' None None None None,
               ProseMirrorNode ''paragraph''
                 (Some [ProseMirrorNode ''text'' None (Some ''c'') None None])
                 None None None])
            None None None])
       None None None"

definition exampleDocuments :: "GranolaDocument list" where
  "exampleDocuments =
     [\<lparr>doc_id = ''a1'', title = ''Sam 1:1'', created_at = ''2024-01-01'',
        last_viewed_panel = None, notes_markdown = Some ''# Agenda''\<rparr>,
      \<lparr>doc_id = ''b2'', title = ''Weekly sync'', created_at = ''2024-01-15'',
        last_viewed_panel = Some \<lparr>panel_content = Some exampleTree\<rparr>, notes_markdown = None\<rparr>,
      \<lparr>doc_id = ''c3'', title = ''1x1 with SAM'', created_at = ''2024-02-01'',
        last_viewed_panel = None, notes_markdown = None\<rparr>]"

definition exampleDocumentsText :: string where
  \<open>exampleDocumentsText =
     ''{"docs":[{"id":"a1","title":"Sam 1:1","created_at":"2024-01-01","notes_markdown":"# Agenda"},''
     @ ''{"id":"b2","title":"Weekly sync","created_at":"2024-01-15","last_viewed_panel":{"content":''
     @ ''{"type":"doc","content":[{"type":"heading","attrs":{"level":2},"content":[{"type":"text","text":"Plan"}]},''
     @ ''{"type":"orderedList","content":[{"type":"paragraph","content":''
     @ ''[{"type":"text","text":"x","marks":[{"type":"bold"},{"type":"italic"}]}]},{"type":"paragraph"},''
     @ ''{"type":"paragraph","content":[{"type":"text","text":"c"}]}]}]}}},''
     @ ''{"id":"c3","title":"1x1 with SAM","created_at":"2024-02-01"}]}''\<close>

definition exampleSegments :: "TranscriptSegment list" where
  "exampleSegments =
     [\<lparr>source = ''microphone'', segment_text = ''Hi Sam''\<rparr>,
      \<lparr>source = ''system'', segment_text = ''Hello''\<rparr>,
      \<lparr>source = ''other'', segment_text = ''(noise)''\<rparr>]"

definition exampleTranscriptText :: string where
  \<open>exampleTranscriptText =
     ''[{"source":"microphone","text":"Hi Sam"},{"source":"system","text":"Hello"},''
     @ ''{"source":"other","text":"(noise)"}]''\<close>

definition exampleTokensText :: string where
  \<open>exampleTokensText = ''{"access_token":"tok"}''\<close>

definition exampleConfigText :: string where
  \<open>exampleConfigText =
     ''{"workos_tokens":"{'' @ [CHR 0x5C] @ ''"access_token'' @ [CHR 0x5C] @ ''":''
     @ [CHR 0x5C] @ ''"tok'' @ [CHR 0x5C] @ ''"}"}''\<close>

definition exampleFetch :: "string \<Rightarrow> string \<Rightarrow> RequestBody \<Rightarrow> error + HttpResponse" where
  "exampleFetch url token body =
     (if token \<noteq> ''tok'' then Inr \<lparr>ok = False, status = 401, response_text = ''Unauthorized''\<rparr>
      else
        (case body of
           GetDocumentsBody l off panel \<Rightarrow>
             if off = 0 \<and> 3 \<le> l then
               Inr \<lparr>ok = True, status = 200, response_text = exampleDocumentsText\<rparr>
             else Inr \<lparr>ok = False, status = 503, response_text = ''Service Unavailable''\<rparr>
         | GetTranscriptBody documentId \<Rightarrow>
             Inr \<lparr>ok = True, status = 200,
                  response_text = (if documentId = ''a1'' then exampleTranscriptText else ''[]'')\<rparr>))"

definition exampleWorld :: world where
  "exampleWorld =
     \<lparr>config_file = Some exampleConfigText,
      parse_config =
        (\<lambda>s. if s = exampleConfigText then Some (JObject \<lparr>workos_tokens = Some exampleTokensText\<rparr>)
             else None),
      parse_tokens =
        (\<lambda>s. if s = exampleTokensText then Some (JObject \<lparr>access_token = Some ''tok''\<rparr>)
             else None),
      fetch = exampleFetch,
      parse_documents =
        (\<lambda>s. if s = exampleDocumentsText then Some (JObject \<lparr>docs = Some exampleDocuments\<rparr>)
             else None),
      parse_transcript =
        (\<lambda>s. if s = exampleTranscriptText then Some (SegmentArray exampleSegments)
             else if s = ''[]'' then Some (SegmentArray [])
             else None),
      date_getTime =
        (\<lambda>s. if s = ''2024-01-01'' then Some 1704067200000
             else if s = ''2024-01-15'' then Some 1705276800000
             else if s = ''2024-02-01'' then Some 1706745600000
             else None),
      max_string_length = 536870888,
      stack_holds = shallowStack\<rparr>"

text \<open>
  The same world with a credential file whose \<open>access_token\<close> is present and is the empty
  string.
\<close>

definition emptyTokenText :: string where
  \<open>emptyTokenText = ''{"access_token":""}''\<close>

definition emptyTokenConfigText :: string where
  \<open>emptyTokenConfigText =
     ''{"workos_tokens":"{'' @ [CHR 0x5C] @ ''"access_token'' @ [CHR 0x5C] @ ''":''
     @ [CHR 0x5C] @ ''"'' @ [CHR 0x5C] @ ''"}"}''\<close>

definition emptyTokenWorld :: world where
  "emptyTokenWorld =
     exampleWorld
       \<lparr>config_file := Some emptyTokenConfigText,
        parse_config :=
          (\<lambda>s. if s = emptyTokenConfigText then Some (JObject \<lparr>workos_tokens = Some emptyTokenText\<rparr>)
               else None),
        parse_tokens :=
          (\<lambda>s. if s = emptyTokenText then Some (JObject \<lparr>access_token = Some []\<rparr>)
               else None)\<rparr>"

text \<open>
  A service whose one document has no notes and a content tree with a heading of level
  \<open>-1\<close>.
\<close>

definition negativeLevelTree :: ProseMirrorNode where
  "negativeLevelTree =
     ProseMirrorNode ''heading''
       (Some [ProseMirrorNode ''text'' None (Some ''T'') None None])
       None None (Some [''level'' \<mapsto> JSNumber (- 1)])"

definition negativeLevelDocuments :: "GranolaDocument list" where
  "negativeLevelDocuments =
     [\<lparr>doc_id = ''d4'', title = ''Retro'', created_at = ''2024-03-01'',
        last_viewed_panel = Some \<lparr>panel_content = Some negativeLevelTree\<rparr>,
        notes_markdown = None\<rparr>]"

definition negativeLevelDocumentsText :: string where
  \<open>negativeLevelDocumentsText =
     ''{"docs":[{"id":"d4","title":"Retro","created_at":"2024-03-01","last_viewed_panel":''
     @ ''{"content":{"type":"heading","attrs":{"level":-1},''
     @ ''"content":[{"type":"text","text":"T"}]}}}]}''\<close>

definition negativeLevelWorld :: world where
  "negativeLevelWorld =
     exampleWorld
       \<lparr>fetch :=
          (\<lambda>url token body.
             case body of
               GetDocumentsBody l off panel \<Rightarrow>
                 Inr \<lparr>ok = True, status = 200, response_text = negativeLevelDocumentsText\<rparr>
             | GetTranscriptBody documentId \<Rightarrow>
                 Inr \<lparr>ok = True, status = 200, response_text = ''[]''\<rparr>),
        parse_documents :=
          (\<lambda>s. if s = negativeLevelDocumentsText
               then Some (JObject \<lparr>docs = Some negativeLevelDocuments\<rparr>)
               else None)\<rparr>"

section \<open>Facts about the runtime functions\<close>





lemma join_loop_rest: "join_loop sep R False xs = R @ concat (map ((@) sep) xs)"
  by (induction xs arbitrary: R) simp_all

lemma join_Nil: "join sep [] = []"
  by (simp add: join_def)

lemma join_Cons: "join sep (x # xs) = x @ concat (map ((@) sep) xs)"
  by (simp add: join_def join_loop_rest)

lemma join_empty_separator: "join [] xs = concat xs"
proof -
  have "map ((@) []) ys = ys" for ys :: "string list"
    by (induction ys) simp_all
  then show ?thesis
    by (cases xs) (simp_all add: join_Nil join_Cons)
qed

lemma blankLineSeparated_Cons:
  "blankLineSeparated (x # xs) = x @ concat (map ((@) ''\<newline>\<newline>'') xs)"
  by (induction xs arbitrary: x) simp_all

lemma join_blankLineSeparated: "join ''\<newline>\<newline>'' xs = blankLineSeparated xs"
  by (cases xs) (simp_all only: join_Nil join_Cons blankLineSeparated_Cons blankLineSeparated.simps)

lemma collect_Inr: "collect (map Inr vs) = Inr vs"
  by (induction vs) simp_all

lemma joinChildren_Inr: "joinChildren (map Inr vs) = Inr (concat vs)"
  by (simp add: joinChildren_def collect_Inr join_empty_separator)

lemma decimal_small:
  "decimal (Suc 0) = ''1''" "decimal (Suc (Suc 0)) = ''2''" "decimal (Suc (Suc (Suc 0))) = ''3''"
  by (simp_all add: decimal.simps)

section \<open>Facts about the example world\<close>

lemma example_token:
  "getAccessToken exampleWorld \<lparr>accessToken = None\<rparr> = (Inr ''tok'', \<lparr>accessToken = Some ''tok''\<rparr>)"
  by (simp add: getAccessToken_def Let_def loadCredentials_def exampleWorld_def
      exampleTokensText_def)

lemma example_listing:
  "3 \<le> l \<Longrightarrow> getRecentDocuments exampleWorld \<lparr>accessToken = None\<rparr> l 0
     = (Inr exampleDocuments, \<lparr>accessToken = Some ''tok''\<rparr>)"
  by (simp add: getRecentDocuments_def makeRequest_def example_token)
     (simp add: exampleWorld_def exampleFetch_def)



lemma example_renders:
  "processNode maxLength (ProseMirrorNode ''paragraph''
      (Some [ProseMirrorNode ''text'' None (Some ''x'') (Some [''bold'', ''italic'']) None])
      None None None) = Inr ''***x***\<newline>\<newline>''"
  "processNode maxLength (ProseMirrorNode ''paragraph'' None None None None) = Inr []"
  "processNode maxLength (ProseMirrorNode ''paragraph''
      (Some [ProseMirrorNode ''text'' None (Some ''c'') None None]) None None None)
     = Inr ''c\<newline>\<newline>''"
  by (simp_all add: processNode.simps joinChildren_def join_def trim_def isWhiteSpace_def)

section \<open>Properties of the title search\<close>



text \<open>
  Claim C10. With the empty string as query, \<open>searchDocuments\<close> returns the whole listing
  unchanged.
\<close>

theorem searchDocuments_empty_query:
  assumes "getRecentDocuments w this limit 0 = (Inr documents, this')"
  shows "searchDocuments w this [] limit = (Inr documents, this')"
proof -
  have "includes_str s []" for s by (induction s) simp_all
  with assms show ?thesis by (simp add: searchDocuments_def toLowerCase_def)
qed

theorem searchDocuments_empty_query_witness:
  "getRecentDocuments exampleWorld \<lparr>accessToken = None\<rparr> 20 0
     = (Inr exampleDocuments, \<lparr>accessToken = Some ''tok''\<rparr>)
   \<and> searchDocuments exampleWorld \<lparr>accessToken = None\<rparr> [] 20
     = (Inr exampleDocuments, \<lparr>accessToken = Some ''tok''\<rparr>)"
proof -
  have l: "getRecentDocuments exampleWorld \<lparr>accessToken = None\<rparr> 20 0
     = (Inr exampleDocuments, \<lparr>accessToken = Some ''tok''\<rparr>)"
    by (simp add: example_listing)
  from searchDocuments_empty_query [OF l] l show ?thesis by simp
qed

section \<open>Properties of the latest one-on-one\<close>







section \<open>Properties of the renderer\<close>

lemma applyMarks_foldl: "applyMarks result ms = foldl (\<lambda>r mark. wrapMark mark r) result ms"
  by (induction ms arbitrary: result) (simp_all add: wrapMark_def)

lemma processNode_text:
  "processNode maxLength (ProseMirrorNode ''text'' c t m a)
     = Inr (applyMarks (case t of None \<Rightarrow> [] | Some s \<Rightarrow> s) (case m of None \<Rightarrow> [] | Some ms \<Rightarrow> ms))"
  by (simp add: processNode.simps)

lemma processNode_orderedList:
  "processNode maxLength (ProseMirrorNode ''orderedList'' (Some children) t m a)
     = joinChildren (map (\<lambda>(i, child). orderedItem i (processNode maxLength child))
                       (zip [0..<length children] children))"
  by (simp add: processNode.simps)

lemma zip_positions: "zip [0..<length rs] rs = map (\<lambda>i. (i, rs ! i)) [0..<length rs]"
  by (rule nth_equalityI) simp_all

lemma orderedList_positions:
  assumes "map (processNode maxLength) children = map Inr renders"
  shows "processNode maxLength (ProseMirrorNode ''orderedList'' (Some children) t m a)
           = Inr (concat (map (\<lambda>i. if renders ! i = [] then []
                                    else decimal (i + 1) @ ''. '' @ renders ! i)
                            [0..<length renders]))"
proof -
  have len: "length children = length renders"
    using assms by (metis length_map)
  have "map (\<lambda>(i, child). orderedItem i (processNode maxLength child))
          (zip [0..<length children] children)
          = map (\<lambda>(i, r). orderedItem i r)
              (zip [0..<length children] (map (processNode maxLength) children))"
    by (simp add: zip_map2 case_prod_unfold comp_def)
  also have "\<dots> = map (\<lambda>(i, r). orderedItem i r) (zip [0..<length renders] (map Inr renders))"
    by (simp only: assms len)
  also have "\<dots> = map (\<lambda>(i, r). orderedItem i (Inr r)) (zip [0..<length renders] renders)"
    by (simp add: zip_map2 case_prod_unfold comp_def)
  also have "\<dots> = map (\<lambda>i. orderedItem i (Inr (renders ! i))) [0..<length renders]"
    by (simp only: zip_positions [of renders]) (simp add: comp_def)
  also have "\<dots> = map Inr (map (\<lambda>i. if renders ! i = [] then []
                                      else decimal (i + 1) @ ''. '' @ renders ! i)
                              [0..<length renders])"
    by (simp add: orderedItem_def comp_def)
  finally show ?thesis
    by (simp only: processNode_orderedList joinChildren_Inr)
qed

text \<open>
  Claim C3. When the children of an \<open>orderedList\<close> node render to the texts \<open>renders\<close>,
  the node renders to the concatenation, over the positions \<open>i\<close> from \<open>0\<close>, of nothing
  where the render at \<open>i\<close> is empty and of the numeral of \<open>i + 1\<close>, a dot, a space and the
  render otherwise. Three children whose second render is empty give \<open>1. \<close> and the
  first render, then \<open>3. \<close> and the third.
\<close>

theorem orderedList_numbering:
  "(map (processNode maxLength) children = map Inr renders \<longrightarrow>
      processNode maxLength (ProseMirrorNode ''orderedList'' (Some children) t m a)
        = Inr (concat (map (\<lambda>i. if renders ! i = [] then []
                                 else decimal (i + 1) @ ''. '' @ renders ! i)
                         [0..<length renders])))
   \<and> (processNode maxLength c1 = Inr r1 \<and> r1 \<noteq> [] \<and> processNode maxLength c2 = Inr []
        \<and> processNode maxLength c3 = Inr r3
        \<and> r3 \<noteq> [] \<longrightarrow>
      processNode maxLength (ProseMirrorNode ''orderedList'' (Some [c1, c2, c3]) t m a)
        = Inr (''1. '' @ r1 @ ''3. '' @ r3))"
proof (intro conjI impI)
  assume "map (processNode maxLength) children = map Inr renders"
  then show "processNode maxLength (ProseMirrorNode ''orderedList'' (Some children) t m a)
        = Inr (concat (map (\<lambda>i. if renders ! i = [] then []
                                 else decimal (i + 1) @ ''. '' @ renders ! i)
                         [0..<length renders]))"
    by (rule orderedList_positions)
next
  assume three: "processNode maxLength c1 = Inr r1 \<and> r1 \<noteq> [] \<and> processNode maxLength c2 = Inr []
        \<and> processNode maxLength c3 = Inr r3
        \<and> r3 \<noteq> []"
  then have "map (processNode maxLength) [c1, c2, c3] = map Inr [r1, [], r3]" by simp
  from orderedList_positions [OF this, of t m a] three
  have "processNode maxLength (ProseMirrorNode ''orderedList'' (Some [c1, c2, c3]) t m a)
          = Inr (decimal 1 @ ''. '' @ r1 @ decimal 3 @ ''. '' @ r3)"
    by (simp add: upt_rec [of 0] upt_rec [of 1] upt_rec [of 2] numeral_3_eq_3)
  moreover have "decimal 1 = ''1''" "decimal 3 = ''3''"
    by (simp_all add: decimal.simps)
  ultimately show "processNode maxLength (ProseMirrorNode ''orderedList'' (Some [c1, c2, c3]) t m a)
        = Inr (''1. '' @ r1 @ ''3. '' @ r3)"
    by simp
qed

theorem orderedList_numbering_witness:
  "map (processNode 536870888)
     [ProseMirrorNode ''paragraph''
        (Some [ProseMirrorNode ''text'' None (Some ''x'') (Some [''bold'', ''italic'']) None])
        None None None,
      ProseMirrorNode ''paragraph'' None None None None,
      ProseMirrorNode ''paragraph''
        (Some [ProseMirrorNode ''text'' None (Some ''c'') None None]) None None None]
     = map Inr [''***x***\<newline>\<newline>'', [], ''c\<newline>\<newline>'']
   \<and> processNode 536870888
       (ProseMirrorNode ''orderedList''
          (Some
            [ProseMirrorNode ''paragraph''
               (Some [ProseMirrorNode ''text'' None (Some ''x'') (Some [''bold'', ''italic'']) None])
               None None None,
             ProseMirrorNode ''paragraph'' None None None None,
             ProseMirrorNode ''paragraph''
               (Some [ProseMirrorNode ''text'' None (Some ''c'') None None]) None None None])
          None None None)
       = Inr ''1. ***x***\<newline>\<newline>3. c\<newline>\<newline>''"
  using orderedList_numbering
    [of 536870888
        "[ProseMirrorNode ''paragraph''
            (Some [ProseMirrorNode ''text'' None (Some ''x'') (Some [''bold'', ''italic'']) None])
            None None None,
          ProseMirrorNode ''paragraph'' None None None None,
          ProseMirrorNode ''paragraph''
            (Some [ProseMirrorNode ''text'' None (Some ''c'') None None]) None None None]"
        "[''***x***\<newline>\<newline>'', [], ''c\<newline>\<newline>'']" None None None
        "ProseMirrorNode ''paragraph''
            (Some [ProseMirrorNode ''text'' None (Some ''x'') (Some [''bold'', ''italic'']) None])
            None None None"
        "''***x***\<newline>\<newline>''"
        "ProseMirrorNode ''paragraph'' None None None None"
        "ProseMirrorNode ''paragraph''
            (Some [ProseMirrorNode ''text'' None (Some ''c'') None None]) None None None"
        "''c\<newline>\<newline>''"]
  by (simp add: example_renders decimal_small)

text \<open>
  Claim C4. A text node renders to its literal text with the marks applied in the order of
  the mark list, each recognised mark wrapping the result so far; the text \<open>x\<close> with the
  marks bold and italic, in this order, renders to \<open>***x***\<close>.
\<close>

theorem text_marks_in_order:
  "processNode maxLength (ProseMirrorNode ''text'' c (Some x) (Some ms) a)
     = Inr (foldl (\<lambda>r mark. wrapMark mark r) x ms)
   \<and> processNode maxLength (ProseMirrorNode ''text'' c (Some x) None a) = Inr x
   \<and> processNode maxLength (ProseMirrorNode ''text'' c (Some ''x'') (Some [''bold'', ''italic'']) a)
       = Inr ''***x***''"
  by (simp add: processNode_text applyMarks_foldl wrapMark_def)

theorem text_marks_in_order_witness:
  "processNode 536870888
     (ProseMirrorNode ''text'' None (Some ''hi'') (Some [''code'', ''bold'', ''underline'']) None)
     = Inr ''**`hi`**''"
  using text_marks_in_order [of 536870888 None "''hi''" "[''code'', ''bold'', ''underline'']" None]
  by (simp add: wrapMark_def)









lemma example_tree_render:
  "processNode 536870888 exampleTree
     = Inr ''## Plan\<newline>\<newline>1. ***x***\<newline>\<newline>3. c\<newline>\<newline>''"
  by (simp add: exampleTree_def processNode.simps joinChildren_def join_def trim_def
      isWhiteSpace_def attrs_level_def repeat_str_def checkLength_def orderedItem_def
      decimal_small Let_def numeral_2_eq_2)





section \<open>Properties of the transcript\<close>

lemma example_transcript_request:
  "makeRequest exampleWorld (parse_transcript exampleWorld) \<lparr>accessToken = None\<rparr>
     ''https://api.granola.ai/v1/get-document-transcript'' (GetTranscriptBody ''a1'')
     = (Inr (SegmentArray exampleSegments), \<lparr>accessToken = Some ''tok''\<rparr>)"
  by (simp add: makeRequest_def example_token) (simp add: exampleWorld_def exampleFetch_def)

lemma example_empty_transcript_request:
  "makeRequest exampleWorld (parse_transcript exampleWorld) \<lparr>accessToken = None\<rparr>
     ''https://api.granola.ai/v1/get-document-transcript'' (GetTranscriptBody ''c3'')
     = (Inr (SegmentArray []), \<lparr>accessToken = Some ''tok''\<rparr>)"
  by (simp add: makeRequest_def example_token)
     (simp add: exampleWorld_def exampleFetch_def exampleTranscriptText_def)

text \<open>
  Claim C7. \<open>getDocumentTranscript\<close> never throws: it always returns a value, and this
  value differs from \<open>null\<close> exactly when the request succeeded and its answer is an array
  with at least one segment. A failed request (no credentials, a rejected \<open>fetch\<close>, a
  status that is not ok, a body that is not JSON), an answer that is no array and an empty
  array all give \<open>null\<close>.
\<close>

theorem getDocumentTranscript_never_throws:
  "\<exists>r this'. getDocumentTranscript w this documentId = (Inr r, this')
      \<and> (r \<noteq> None \<longleftrightarrow>
           (\<exists>segments. segments \<noteq> []
              \<and> fst (makeRequest w (parse_transcript w) this
                        ''https://api.granola.ai/v1/get-document-transcript''
                        (GetTranscriptBody documentId)) = Inr (SegmentArray segments)))"
proof -
  obtain res this' where req:
    "makeRequest w (parse_transcript w) this
       ''https://api.granola.ai/v1/get-document-transcript'' (GetTranscriptBody documentId)
       = (res, this')"
    by (cases "makeRequest w (parse_transcript w) this
       ''https://api.granola.ai/v1/get-document-transcript'' (GetTranscriptBody documentId)")
  show ?thesis
  proof (cases res)
    case (Inl e)
    with req show ?thesis
      by (simp add: getDocumentTranscript_def try_catch_def)
  next
    case (Inr payload)
    show ?thesis
    proof (cases payload)
      case (NonArray t)
      with req Inr show ?thesis
        by (simp add: getDocumentTranscript_def try_catch_def)
    next
      case (SegmentArray segments)
      with req Inr show ?thesis
        by (cases segments) (simp_all add: getDocumentTranscript_def try_catch_def)
    qed
  qed
qed

theorem getDocumentTranscript_never_throws_witness:
  "getDocumentTranscript exampleWorld \<lparr>accessToken = None\<rparr> ''c3''
     = (Inr None, \<lparr>accessToken = Some ''tok''\<rparr>)
   \<and> getDocumentTranscript exampleWorld \<lparr>accessToken = Some ''stale''\<rparr> ''a1''
     = (Inr None, \<lparr>accessToken = Some ''stale''\<rparr>)"
proof -
  from getDocumentTranscript_never_throws [of exampleWorld "\<lparr>accessToken = None\<rparr>" "''c3''"]
  obtain r this' where
    a: "getDocumentTranscript exampleWorld \<lparr>accessToken = None\<rparr> ''c3'' = (Inr r, this')"
    and b: "r \<noteq> None \<longleftrightarrow>
           (\<exists>segments. segments \<noteq> []
              \<and> fst (makeRequest exampleWorld (parse_transcript exampleWorld) \<lparr>accessToken = None\<rparr>
                        ''https://api.granola.ai/v1/get-document-transcript''
                        (GetTranscriptBody ''c3'')) = Inr (SegmentArray segments))"
    by blast
  from b have "r = None" by (simp add: example_empty_transcript_request)
  moreover have "this' = \<lparr>accessToken = Some ''tok''\<rparr>"
    using a by (simp add: getDocumentTranscript_def try_catch_def example_empty_transcript_request)
  moreover have "getDocumentTranscript exampleWorld \<lparr>accessToken = Some ''stale''\<rparr> ''a1''
     = (Inr None, \<lparr>accessToken = Some ''stale''\<rparr>)"
    by (simp add: getDocumentTranscript_def try_catch_def makeRequest_def getAccessToken_def
        Let_def)
       (simp add: exampleWorld_def exampleFetch_def)
  ultimately show ?thesis using a by simp
qed

text \<open>
  Claim C8. For a non-empty array of segments, the transcript text is the lines of the
  segments in their order with a blank line between neighbours, the line of a segment
  being its text after \<open>**Me:** \<close> for the source \<open>microphone\<close>, after \<open>**System:** \<close> for the
  source \<open>system\<close>, and alone for any other source.
\<close>

theorem getDocumentTranscript_format:
  assumes "makeRequest w (parse_transcript w) this
             ''https://api.granola.ai/v1/get-document-transcript'' (GetTranscriptBody documentId)
             = (Inr (SegmentArray segments), this')"
    and "segments \<noteq> []"
  shows "getDocumentTranscript w this documentId
           = (Inr (Some (blankLineSeparated
                           (map (\<lambda>s. speakerPrefix (source s) @ segment_text s) segments))),
              this')"
proof -
  have "formatSegment = (\<lambda>s. speakerPrefix (source s) @ segment_text s)"
    by (rule ext) (simp add: formatSegment_def speakerPrefix_def)
  with assms show ?thesis
    by (simp add: getDocumentTranscript_def try_catch_def join_blankLineSeparated)
qed

theorem getDocumentTranscript_format_witness:
  "makeRequest exampleWorld (parse_transcript exampleWorld) \<lparr>accessToken = None\<rparr>
     ''https://api.granola.ai/v1/get-document-transcript'' (GetTranscriptBody ''a1'')
     = (Inr (SegmentArray exampleSegments), \<lparr>accessToken = Some ''tok''\<rparr>)
   \<and> exampleSegments \<noteq> []
   \<and> getDocumentTranscript exampleWorld \<lparr>accessToken = None\<rparr> ''a1''
       = (Inr (Some ''**Me:** Hi Sam\<newline>\<newline>**System:** Hello\<newline>\<newline>(noise)''),
          \<lparr>accessToken = Some ''tok''\<rparr>)"
proof -
  have ne: "exampleSegments \<noteq> []" by (simp add: exampleSegments_def)
  from getDocumentTranscript_format [OF example_transcript_request ne]
  show ?thesis
    using example_transcript_request ne
    by (simp add: exampleSegments_def speakerPrefix_def)
qed

section \<open>Properties of the notes lookup\<close>

lemma find_first:
  "find P xs = Some d \<longleftrightarrow>
     (\<exists>before after. xs = before @ d # after \<and> P d \<and> (\<forall>x \<in> set before. \<not> P x))"
proof (induction xs)
  case Nil
  show ?case by simp
next
  case (Cons x xs)
  show ?case
  proof (cases "P x")
    case True
    have "(\<exists>before after. x # xs = before @ d # after \<and> P d \<and> (\<forall>y \<in> set before. \<not> P y))
            \<longleftrightarrow> x = d"
    proof
      assume "\<exists>before after. x # xs = before @ d # after \<and> P d \<and> (\<forall>y \<in> set before. \<not> P y)"
      then obtain before after where
        e: "x # xs = before @ d # after" and n: "\<forall>y \<in> set before. \<not> P y" by blast
      show "x = d"
      proof (cases before)
        case Nil
        with e show ?thesis by simp
      next
        case (Cons b bs)
        with e n True show ?thesis by simp
      qed
    next
      assume "x = d"
      with True have "x # xs = [] @ d # xs \<and> P d \<and> (\<forall>y \<in> set []. \<not> P y)" by simp
      then show "\<exists>before after. x # xs = before @ d # after \<and> P d \<and> (\<forall>y \<in> set before. \<not> P y)"
        by blast
    qed
    with True show ?thesis by simp
  next
    case False
    have "(\<exists>before after. x # xs = before @ d # after \<and> P d \<and> (\<forall>y \<in> set before. \<not> P y))
            \<longleftrightarrow> (\<exists>before after. xs = before @ d # after \<and> P d \<and> (\<forall>y \<in> set before. \<not> P y))"
      (is "?L \<longleftrightarrow> ?R")
    proof
      assume ?L
      then obtain before after where
        e: "x # xs = before @ d # after" and p: "P d" and n: "\<forall>y \<in> set before. \<not> P y" by blast
      show ?R
      proof (cases before)
        case Nil
        with e p False show ?thesis by simp
      next
        case (Cons b bs)
        with e n have "xs = bs @ d # after \<and> (\<forall>y \<in> set bs. \<not> P y)" by simp
        with p show ?thesis by blast
      qed
    next
      assume ?R
      then obtain before after where
        "xs = before @ d # after" and p: "P d" and "\<forall>y \<in> set before. \<not> P y" by blast
      with False have "x # xs = (x # before) @ d # after \<and> (\<forall>y \<in> set (x # before). \<not> P y)"
        by simp
      with p show ?L by blast
    qed
    with False Cons.IH show ?thesis by simp
  qed
qed

lemma getDocumentNotes_found:
  assumes "getRecentDocuments w this 100 0 = (Inr documents, this')"
  shows "getDocumentNotes w this documentId =
           (Inr (case find (\<lambda>d. doc_id d = documentId) documents of
                   None \<Rightarrow> None
                 | Some d \<Rightarrow>
                     if notes_markdown d \<noteq> None \<and> notes_markdown d \<noteq> Some [] then notes_markdown d
                     else (case contentTree d of
                             None \<Rightarrow> None
                           | Some tree \<Rightarrow>
                               (case convertProseMirrorToMarkdown (max_string_length w) (stack_holds w) (Some tree) of
                                  Inl e \<Rightarrow> None
                                | Inr markdown \<Rightarrow> Some markdown))),
            this')"
  using assms
  by (simp add: getDocumentNotes_def try_catch_def contentTree_def
      split: option.splits sum.splits)

lemma example_contentTree:
  "contentTree (exampleDocuments ! 1) = Some exampleTree"
  "contentTree (exampleDocuments ! 2) = None"
  by (simp_all add: contentTree_def exampleDocuments_def)

text \<open>
  Claim C6, as amended. \<open>getDocumentNotes\<close> looks at the documents that the listing request
  with limit 100 and offset 0 returned, and at nothing else of the service. When the request
  fails it returns \<open>null\<close>. When no returned document has the id, it returns \<open>null\<close>, whatever
  a request further back would list. Otherwise, for the first returned document with the id:
  its \<open>notes_markdown\<close>, as it is, when that is present and not empty; else, when it has a
  content tree, the render of the tree when the renderer returns one and \<open>null\<close> when the
  renderer throws; else \<open>null\<close>.
\<close>

theorem getDocumentNotes_cases:
  "(\<forall>e. getRecentDocuments w this 100 0 = (Inl e, this') \<longrightarrow>
       getDocumentNotes w this documentId = (Inr None, this'))
   \<and> (getRecentDocuments w this 100 0 = (Inr documents, this') \<longrightarrow>
       (\<exists>r. getDocumentNotes w this documentId = (Inr r, this')
          \<and> ((\<forall>d \<in> set documents. doc_id d \<noteq> documentId) \<longrightarrow> r = None)
          \<and> (\<forall>before d after.
                documents = before @ d # after \<and> doc_id d = documentId
                \<and> (\<forall>x \<in> set before. doc_id x \<noteq> documentId) \<longrightarrow>
                (\<forall>notes. notes_markdown d = Some notes \<and> notes \<noteq> [] \<longrightarrow> r = Some notes)
                \<and> (notes_markdown d = None \<or> notes_markdown d = Some [] \<longrightarrow>
                     (\<forall>tree. contentTree d = Some tree \<longrightarrow>
                        (\<forall>markdown. convertProseMirrorToMarkdown (max_string_length w) (stack_holds w) (Some tree) = Inr markdown
                           \<longrightarrow> r = Some markdown)
                        \<and> (\<forall>e. convertProseMirrorToMarkdown (max_string_length w) (stack_holds w) (Some tree) = Inl e \<longrightarrow> r = None))
                     \<and> (contentTree d = None \<longrightarrow> r = None)))))"
proof (intro conjI allI impI)
  fix e
  assume "getRecentDocuments w this 100 0 = (Inl e, this')"
  then show "getDocumentNotes w this documentId = (Inr None, this')"
    by (simp add: getDocumentNotes_def try_catch_def)
next
  assume l: "getRecentDocuments w this 100 0 = (Inr documents, this')"
  let ?r = "case find (\<lambda>d. doc_id d = documentId) documents of
                   None \<Rightarrow> None
                 | Some d \<Rightarrow>
                     if notes_markdown d \<noteq> None \<and> notes_markdown d \<noteq> Some [] then notes_markdown d
                     else (case contentTree d of
                             None \<Rightarrow> None
                           | Some tree \<Rightarrow>
                               (case convertProseMirrorToMarkdown (max_string_length w) (stack_holds w) (Some tree) of
                                  Inl e \<Rightarrow> None
                                | Inr markdown \<Rightarrow> Some markdown))"
  have r: "getDocumentNotes w this documentId = (Inr ?r, this')"
    by (rule getDocumentNotes_found [OF l])
  have absent: "?r = None" if "\<forall>d \<in> set documents. doc_id d \<noteq> documentId"
  proof -
    from that have "find (\<lambda>d. doc_id d = documentId) documents = None"
      by (simp add: find_None_iff)
    then show ?thesis by simp
  qed
  have present:
    "(\<forall>notes. notes_markdown d = Some notes \<and> notes \<noteq> [] \<longrightarrow> ?r = Some notes)
      \<and> (notes_markdown d = None \<or> notes_markdown d = Some [] \<longrightarrow>
           (\<forall>tree. contentTree d = Some tree \<longrightarrow>
              (\<forall>markdown. convertProseMirrorToMarkdown (max_string_length w) (stack_holds w) (Some tree) = Inr markdown
                 \<longrightarrow> ?r = Some markdown)
              \<and> (\<forall>e. convertProseMirrorToMarkdown (max_string_length w) (stack_holds w) (Some tree) = Inl e \<longrightarrow> ?r = None))
           \<and> (contentTree d = None \<longrightarrow> ?r = None))"
    if "documents = before @ d # after \<and> doc_id d = documentId
          \<and> (\<forall>x \<in> set before. doc_id x \<noteq> documentId)" for before d after
  proof -
    from that have "find (\<lambda>d. doc_id d = documentId) documents = Some d"
      unfolding find_first by blast
    then show ?thesis by auto
  qed
  from r absent present
  show "\<exists>r. getDocumentNotes w this documentId = (Inr r, this')
          \<and> ((\<forall>d \<in> set documents. doc_id d \<noteq> documentId) \<longrightarrow> r = None)
          \<and> (\<forall>before d after.
                documents = before @ d # after \<and> doc_id d = documentId
                \<and> (\<forall>x \<in> set before. doc_id x \<noteq> documentId) \<longrightarrow>
                (\<forall>notes. notes_markdown d = Some notes \<and> notes \<noteq> [] \<longrightarrow> r = Some notes)
                \<and> (notes_markdown d = None \<or> notes_markdown d = Some [] \<longrightarrow>
                     (\<forall>tree. contentTree d = Some tree \<longrightarrow>
                        (\<forall>markdown. convertProseMirrorToMarkdown (max_string_length w) (stack_holds w) (Some tree) = Inr markdown
                           \<longrightarrow> r = Some markdown)
                        \<and> (\<forall>e. convertProseMirrorToMarkdown (max_string_length w) (stack_holds w) (Some tree) = Inl e \<longrightarrow> r = None))
                     \<and> (contentTree d = None \<longrightarrow> r = None)))"
    by blast
qed

theorem getDocumentNotes_cases_witness:
  "getRecentDocuments exampleWorld \<lparr>accessToken = None\<rparr> 100 0
     = (Inr exampleDocuments, \<lparr>accessToken = Some ''tok''\<rparr>)
   \<and> getDocumentNotes exampleWorld \<lparr>accessToken = None\<rparr> ''a1''
       = (Inr (Some ''# Agenda''), \<lparr>accessToken = Some ''tok''\<rparr>)
   \<and> getDocumentNotes exampleWorld \<lparr>accessToken = None\<rparr> ''b2''
       = (Inr (Some ''## Plan\<newline>\<newline>1. ***x***\<newline>\<newline>3. c\<newline>\<newline>''),
          \<lparr>accessToken = Some ''tok''\<rparr>)
   \<and> getDocumentNotes exampleWorld \<lparr>accessToken = None\<rparr> ''c3''
       = (Inr None, \<lparr>accessToken = Some ''tok''\<rparr>)
   \<and> getDocumentNotes exampleWorld \<lparr>accessToken = None\<rparr> ''z9''
       = (Inr None, \<lparr>accessToken = Some ''tok''\<rparr>)"
proof -
  let ?s0 = "\<lparr>accessToken = None\<rparr>" and ?s1 = "\<lparr>accessToken = Some ''tok''\<rparr>"
  have l: "getRecentDocuments exampleWorld ?s0 100 0 = (Inr exampleDocuments, ?s1)"
    by (simp add: example_listing)
  have ids: "doc_id (exampleDocuments ! 0) = ''a1''" "doc_id (exampleDocuments ! 1) = ''b2''"
    "doc_id (exampleDocuments ! 2) = ''c3''"
    and nm: "notes_markdown (exampleDocuments ! 0) = Some ''# Agenda''"
    "notes_markdown (exampleDocuments ! 1) = None" "notes_markdown (exampleDocuments ! 2) = None"
    and docs: "set exampleDocuments = {exampleDocuments ! 0, exampleDocuments ! 1, exampleDocuments ! 2}"
    by (simp_all add: exampleDocuments_def)
  have limit: "max_string_length exampleWorld = 536870888"
    "stack_holds exampleWorld = shallowStack"
    by (simp_all add: exampleWorld_def)
  have shallow: "shallowStack exampleTree"
    by (simp add: shallowStack_def exampleTree_def)
  have tree: "convertProseMirrorToMarkdown (max_string_length exampleWorld) (stack_holds exampleWorld) (Some exampleTree)
                = Inr ''## Plan\<newline>\<newline>1. ***x***\<newline>\<newline>3. c\<newline>\<newline>''"
    by (simp only: limit) (simp add: convertProseMirrorToMarkdown_def example_tree_render shallow)
  have a: "getDocumentNotes exampleWorld ?s0 ''a1'' = (Inr (Some ''# Agenda''), ?s1)"
  proof -
    note getDocumentNotes_cases [of exampleWorld ?s0 ?s1 "''a1''" exampleDocuments,
        THEN conjunct2, THEN mp, OF l]
    then obtain r where r: "getDocumentNotes exampleWorld ?s0 ''a1'' = (Inr r, ?s1)"
      and f: "\<forall>before d after.
                exampleDocuments = before @ d # after \<and> doc_id d = ''a1''
                \<and> (\<forall>x \<in> set before. doc_id x \<noteq> ''a1'') \<longrightarrow>
                (\<forall>notes. notes_markdown d = Some notes \<and> notes \<noteq> [] \<longrightarrow> r = Some notes)"
      by (elim exE conjE) blast
    have p: "exampleDocuments = [] @ exampleDocuments ! 0 # [exampleDocuments ! 1, exampleDocuments ! 2]
            \<and> doc_id (exampleDocuments ! 0) = ''a1''
            \<and> (\<forall>x \<in> set []. doc_id x \<noteq> ''a1'')"
      by (simp add: exampleDocuments_def)
    note f [THEN spec, THEN spec, THEN spec, THEN mp, OF p]
    with nm(1) have "r = Some ''# Agenda''" by simp
    with r show ?thesis by simp
  qed
  have b: "getDocumentNotes exampleWorld ?s0 ''b2''
             = (Inr (Some ''## Plan\<newline>\<newline>1. ***x***\<newline>\<newline>3. c\<newline>\<newline>''), ?s1)"
  proof -
    note getDocumentNotes_cases [of exampleWorld ?s0 ?s1 "''b2''" exampleDocuments,
        THEN conjunct2, THEN mp, OF l]
    then obtain r where r: "getDocumentNotes exampleWorld ?s0 ''b2'' = (Inr r, ?s1)"
      and f: "\<forall>before d after.
                exampleDocuments = before @ d # after \<and> doc_id d = ''b2''
                \<and> (\<forall>x \<in> set before. doc_id x \<noteq> ''b2'') \<longrightarrow>
                (notes_markdown d = None \<or> notes_markdown d = Some [] \<longrightarrow>
                     (\<forall>tree. contentTree d = Some tree \<longrightarrow>
                        (\<forall>markdown. convertProseMirrorToMarkdown (max_string_length exampleWorld) (stack_holds exampleWorld) (Some tree) = Inr markdown
                           \<longrightarrow> r = Some markdown)))"
      by (elim exE conjE) blast
    have p: "exampleDocuments = [exampleDocuments ! 0] @ exampleDocuments ! 1 # [exampleDocuments ! 2]
            \<and> doc_id (exampleDocuments ! 1) = ''b2''
            \<and> (\<forall>x \<in> set [exampleDocuments ! 0]. doc_id x \<noteq> ''b2'')"
      by (simp add: exampleDocuments_def)
    note f [THEN spec, THEN spec, THEN spec, THEN mp, OF p]
    with nm(2) example_contentTree(1) tree
    have "r = Some ''## Plan\<newline>\<newline>1. ***x***\<newline>\<newline>3. c\<newline>\<newline>''"
      by simp
    with r show ?thesis by simp
  qed
  have c: "getDocumentNotes exampleWorld ?s0 ''c3'' = (Inr None, ?s1)"
  proof -
    note getDocumentNotes_cases [of exampleWorld ?s0 ?s1 "''c3''" exampleDocuments,
        THEN conjunct2, THEN mp, OF l]
    then obtain r where r: "getDocumentNotes exampleWorld ?s0 ''c3'' = (Inr r, ?s1)"
      and f: "\<forall>before d after.
                exampleDocuments = before @ d # after \<and> doc_id d = ''c3''
                \<and> (\<forall>x \<in> set before. doc_id x \<noteq> ''c3'') \<longrightarrow>
                (notes_markdown d = None \<or> notes_markdown d = Some [] \<longrightarrow>
                     (contentTree d = None \<longrightarrow> r = None))"
      by (elim exE conjE) blast
    have p: "exampleDocuments = [exampleDocuments ! 0, exampleDocuments ! 1] @ exampleDocuments ! 2 # []
            \<and> doc_id (exampleDocuments ! 2) = ''c3''
            \<and> (\<forall>x \<in> set [exampleDocuments ! 0, exampleDocuments ! 1]. doc_id x \<noteq> ''c3'')"
      by (simp add: exampleDocuments_def)
    note f [THEN spec, THEN spec, THEN spec, THEN mp, OF p]
    with nm(3) example_contentTree(2) have "r = None" by simp
    with r show ?thesis by simp
  qed
  have z: "getDocumentNotes exampleWorld ?s0 ''z9'' = (Inr None, ?s1)"
  proof -
    note getDocumentNotes_cases [of exampleWorld ?s0 ?s1 "''z9''" exampleDocuments,
        THEN conjunct2, THEN mp, OF l]
    then obtain r where r: "getDocumentNotes exampleWorld ?s0 ''z9'' = (Inr r, ?s1)"
      and f: "(\<forall>d \<in> set exampleDocuments. doc_id d \<noteq> ''z9'') \<longrightarrow> r = None"
      by (elim exE conjE) blast
    have "\<forall>d \<in> set exampleDocuments. doc_id d \<noteq> ''z9''"
      using docs ids by simp
    with f r show ?thesis by simp
  qed
  from l a b c z show ?thesis by simp
qed

text \<open>
  Claim C6 as it is stated fails: a document that is found, has no notes and has a content
  tree does not get the render of its tree when the renderer throws; \<open>getDocumentNotes\<close>
  returns \<open>null\<close> for it.
\<close>

theorem getDocumentNotes_throwing_tree_counterexample:
  "getRecentDocuments negativeLevelWorld \<lparr>accessToken = None\<rparr> 100 0
     = (Inr negativeLevelDocuments, \<lparr>accessToken = Some ''tok''\<rparr>)
   \<and> doc_id (negativeLevelDocuments ! 0) = ''d4''
   \<and> notes_markdown (negativeLevelDocuments ! 0) = None
   \<and> contentTree (negativeLevelDocuments ! 0) = Some negativeLevelTree
   \<and> convertProseMirrorToMarkdown (max_string_length negativeLevelWorld)
        (stack_holds negativeLevelWorld) (Some negativeLevelTree)
       = Inl RangeError
   \<and> getDocumentNotes negativeLevelWorld \<lparr>accessToken = None\<rparr> ''d4''
       = (Inr None, \<lparr>accessToken = Some ''tok''\<rparr>)"
proof -
  have token: "getAccessToken negativeLevelWorld \<lparr>accessToken = None\<rparr>
                 = (Inr ''tok'', \<lparr>accessToken = Some ''tok''\<rparr>)"
    by (simp add: getAccessToken_def Let_def loadCredentials_def negativeLevelWorld_def
        exampleWorld_def exampleTokensText_def)
  have listing: "getRecentDocuments negativeLevelWorld \<lparr>accessToken = None\<rparr> 100 0
     = (Inr negativeLevelDocuments, \<lparr>accessToken = Some ''tok''\<rparr>)"
    by (simp add: getRecentDocuments_def makeRequest_def token)
       (simp add: negativeLevelWorld_def exampleWorld_def)
  have tree: "convertProseMirrorToMarkdown (max_string_length negativeLevelWorld)
                (stack_holds negativeLevelWorld) (Some negativeLevelTree) = Inl RangeError"
    by (simp add: convertProseMirrorToMarkdown_def negativeLevelTree_def processNode.simps
        joinChildren_def join_def attrs_level_def repeat_str_def Let_def)
  have document: "doc_id (negativeLevelDocuments ! 0) = ''d4''"
    "notes_markdown (negativeLevelDocuments ! 0) = None"
    "contentTree (negativeLevelDocuments ! 0) = Some negativeLevelTree"
    by (simp_all add: negativeLevelDocuments_def contentTree_def)
  have "getDocumentNotes negativeLevelWorld \<lparr>accessToken = None\<rparr> ''d4''
       = (Inr None, \<lparr>accessToken = Some ''tok''\<rparr>)"
    by (simp add: getDocumentNotes_def try_catch_def listing)
       (simp add: negativeLevelDocuments_def tree)
  with listing tree document show ?thesis by simp
qed

section \<open>Properties of the credentials\<close>

text \<open>
  Claim C9, as amended. The first call of \<open>getAccessToken\<close> fails with the configuration
  error when the credential file does not exist. It fails with an authentication error when
  the file parses to an object whose \<open>workos_tokens\<close> is missing or empty, and when
  \<open>workos_tokens\<close> parses to an object whose \<open>access_token\<close> is missing or empty. It
  succeeds, returning the \<open>access_token\<close> and caching it, exactly when the file exists, the
  file and \<open>workos_tokens\<close> parse to objects, and both fields are present and not empty.
\<close>

theorem getAccessToken_first_call:
  "(config_file w = None \<longrightarrow>
      (\<exists>e. getAccessToken w \<lparr>accessToken = None\<rparr> = (Inl e, \<lparr>accessToken = None\<rparr>)
         \<and> isConfigError e))
   \<and> (\<forall>configData config.
         config_file w = Some configData \<and> parse_config w configData = Some (JObject config)
         \<and> (workos_tokens config = None \<or> workos_tokens config = Some []) \<longrightarrow>
         (\<exists>e. getAccessToken w \<lparr>accessToken = None\<rparr> = (Inl e, \<lparr>accessToken = None\<rparr>)
            \<and> isAuthError e))
   \<and> (\<forall>configData config tokensText workosTokens.
         config_file w = Some configData \<and> parse_config w configData = Some (JObject config)
         \<and> workos_tokens config = Some tokensText \<and> tokensText \<noteq> []
         \<and> parse_tokens w tokensText = Some (JObject workosTokens)
         \<and> (access_token workosTokens = None \<or> access_token workosTokens = Some []) \<longrightarrow>
         (\<exists>e. getAccessToken w \<lparr>accessToken = None\<rparr> = (Inl e, \<lparr>accessToken = None\<rparr>)
            \<and> isAuthError e))
   \<and> (\<forall>token this'.
         getAccessToken w \<lparr>accessToken = None\<rparr> = (Inr token, this') \<longleftrightarrow>
         this' = \<lparr>accessToken = Some token\<rparr>
         \<and> (\<exists>configData config tokensText workosTokens.
               config_file w = Some configData \<and> parse_config w configData = Some (JObject config)
               \<and> workos_tokens config = Some tokensText \<and> tokensText \<noteq> []
               \<and> parse_tokens w tokensText = Some (JObject workosTokens)
               \<and> access_token workosTokens = Some token \<and> token \<noteq> []))"
proof (intro conjI allI impI)
  assume "config_file w = None"
  then show "\<exists>e. getAccessToken w \<lparr>accessToken = None\<rparr> = (Inl e, \<lparr>accessToken = None\<rparr>)
         \<and> isConfigError e"
    by (simp add: getAccessToken_def Let_def loadCredentials_def isConfigError_def)
next
  fix configData config
  assume "config_file w = Some configData \<and> parse_config w configData = Some (JObject config)
         \<and> (workos_tokens config = None \<or> workos_tokens config = Some [])"
  then show "\<exists>e. getAccessToken w \<lparr>accessToken = None\<rparr> = (Inl e, \<lparr>accessToken = None\<rparr>)
            \<and> isAuthError e"
    by (auto simp: getAccessToken_def Let_def loadCredentials_def isAuthError_def)
next
  fix configData config tokensText workosTokens
  assume "config_file w = Some configData \<and> parse_config w configData = Some (JObject config)
         \<and> workos_tokens config = Some tokensText \<and> tokensText \<noteq> []
         \<and> parse_tokens w tokensText = Some (JObject workosTokens)
         \<and> (access_token workosTokens = None \<or> access_token workosTokens = Some [])"
  then show "\<exists>e. getAccessToken w \<lparr>accessToken = None\<rparr> = (Inl e, \<lparr>accessToken = None\<rparr>)
            \<and> isAuthError e"
    by (auto simp: getAccessToken_def Let_def loadCredentials_def isAuthError_def)
next
  fix token this'
  have load: "loadCredentials w = Inr token \<longleftrightarrow>
      (\<exists>configData config tokensText workosTokens.
               config_file w = Some configData \<and> parse_config w configData = Some (JObject config)
               \<and> workos_tokens config = Some tokensText \<and> tokensText \<noteq> []
               \<and> parse_tokens w tokensText = Some (JObject workosTokens)
               \<and> access_token workosTokens = Some token \<and> token \<noteq> [])"
    by (auto simp: loadCredentials_def split: option.splits parsed.splits if_splits)
  have "getAccessToken w \<lparr>accessToken = None\<rparr> = (Inr token, this') \<longleftrightarrow>
          this' = \<lparr>accessToken = Some token\<rparr> \<and> loadCredentials w = Inr token"
    by (auto simp: getAccessToken_def Let_def split: sum.splits)
  with load show "getAccessToken w \<lparr>accessToken = None\<rparr> = (Inr token, this') \<longleftrightarrow>
         this' = \<lparr>accessToken = Some token\<rparr>
         \<and> (\<exists>configData config tokensText workosTokens.
               config_file w = Some configData \<and> parse_config w configData = Some (JObject config)
               \<and> workos_tokens config = Some tokensText \<and> tokensText \<noteq> []
               \<and> parse_tokens w tokensText = Some (JObject workosTokens)
               \<and> access_token workosTokens = Some token \<and> token \<noteq> [])"
    by simp
qed

theorem getAccessToken_first_call_witness:
  "config_file exampleWorld = Some exampleConfigText
   \<and> parse_config exampleWorld exampleConfigText
       = Some (JObject \<lparr>workos_tokens = Some exampleTokensText\<rparr>)
   \<and> exampleTokensText \<noteq> []
   \<and> parse_tokens exampleWorld exampleTokensText = Some (JObject \<lparr>access_token = Some ''tok''\<rparr>)
   \<and> getAccessToken exampleWorld \<lparr>accessToken = None\<rparr>
       = (Inr ''tok'', \<lparr>accessToken = Some ''tok''\<rparr>)
   \<and> config_file (exampleWorld\<lparr>config_file := None\<rparr>) = None
   \<and> getAccessToken (exampleWorld\<lparr>config_file := None\<rparr>) \<lparr>accessToken = None\<rparr>
       = (Inl ConfigNotFound, \<lparr>accessToken = None\<rparr>)"
proof -
  have facts: "config_file exampleWorld = Some exampleConfigText"
    "parse_config exampleWorld exampleConfigText
       = Some (JObject \<lparr>workos_tokens = Some exampleTokensText\<rparr>)"
    "exampleTokensText \<noteq> []"
    "parse_tokens exampleWorld exampleTokensText = Some (JObject \<lparr>access_token = Some ''tok''\<rparr>)"
    by (simp_all add: exampleWorld_def exampleTokensText_def)
  from getAccessToken_first_call [of exampleWorld] facts
  have ok: "getAccessToken exampleWorld \<lparr>accessToken = None\<rparr>
       = (Inr ''tok'', \<lparr>accessToken = Some ''tok''\<rparr>)"
    by simp
  from getAccessToken_first_call [of "exampleWorld\<lparr>config_file := None\<rparr>"]
  have "getAccessToken (exampleWorld\<lparr>config_file := None\<rparr>) \<lparr>accessToken = None\<rparr>
       = (Inl ConfigNotFound, \<lparr>accessToken = None\<rparr>)"
    by (auto simp: isConfigError_def)
  with facts ok show ?thesis by simp
qed

text \<open>
  Claim C9 as it is stated fails: with a credential file in which both fields are present
  and \<open>access_token\<close> is the empty string, the first call does not succeed; it throws the
  error for a missing \<open>access_token\<close>.
\<close>

theorem getAccessToken_empty_token_counterexample:
  "config_file emptyTokenWorld = Some emptyTokenConfigText
   \<and> parse_config emptyTokenWorld emptyTokenConfigText
       = Some (JObject \<lparr>workos_tokens = Some emptyTokenText\<rparr>)
   \<and> parse_tokens emptyTokenWorld emptyTokenText = Some (JObject \<lparr>access_token = Some []\<rparr>)
   \<and> getAccessToken emptyTokenWorld \<lparr>accessToken = None\<rparr>
       = (Inl NoAccessToken, \<lparr>accessToken = None\<rparr>)"
  by (simp add: emptyTokenWorld_def getAccessToken_def Let_def loadCredentials_def
      emptyTokenText_def)

end
